theory Spec2Isabelle
  imports Main "HOL-Library.Sublist"
begin

section \<open>Strings and regular expressions\<close>

text \<open>
  JavaScript strings are modelled as \<^typ>\<open>string\<close>. The model is meant for ASCII text:
  case conversion and the character classes below treat every character outside ASCII
  as a character without case that is neither a word character nor white space.
\<close>

definition code :: "char \<Rightarrow> nat" where
  "code c = of_char c"

definition isLower :: "char \<Rightarrow> bool" where
  "isLower c = (97 \<le> code c \<and> code c \<le> 122)"

definition isUpper :: "char \<Rightarrow> bool" where
  "isUpper c = (65 \<le> code c \<and> code c \<le> 90)"

definition isDigit :: "char \<Rightarrow> bool" where
  "isDigit c = (48 \<le> code c \<and> code c \<le> 57)"

text \<open>The class \<^verbatim>\<open>\w\<close>: letters, digits and the underscore.\<close>

definition isWord :: "char \<Rightarrow> bool" where
  "isWord c = (isLower c \<or> isUpper c \<or> isDigit c \<or> c = CHR ''_'')"

text \<open>The class \<^verbatim>\<open>\s\<close> on ASCII: space, tab, line feed, vertical tab, form feed,
  carriage return.\<close>

definition isSpace :: "char \<Rightarrow> bool" where
  "isSpace c = (code c = 32 \<or> (9 \<le> code c \<and> code c \<le> 13))"

text \<open>The dot of a regular expression matches everything but a line terminator.\<close>

definition isDot :: "char \<Rightarrow> bool" where
  "isDot c = (code c \<noteq> 10 \<and> code c \<noteq> 13)"

definition charToUpper :: "char \<Rightarrow> char" where
  "charToUpper c = (if isLower c then char_of (code c - 32) else c)"

definition charToLower :: "char \<Rightarrow> char" where
  "charToLower c = (if isUpper c then char_of (code c + 32) else c)"

definition toUpperCase :: "string \<Rightarrow> string" where
  "toUpperCase s = map charToUpper s"

definition toLowerCase :: "string \<Rightarrow> string" where
  "toLowerCase s = map charToLower s"

text \<open>\<^verbatim>\<open>s.includes(t)\<close>: \<open>t\<close> occurs in \<open>s\<close> as a contiguous substring.\<close>

fun strIncludes :: "string \<Rightarrow> string \<Rightarrow> bool" where
  "strIncludes [] t = (t = [])"
| "strIncludes (c # cs) t = (prefix t (c # cs) \<or> strIncludes cs t)"

definition endsWith :: "string \<Rightarrow> string \<Rightarrow> bool" where
  "endsWith s t = suffix t s"

definition startsWith :: "string \<Rightarrow> string \<Rightarrow> bool" where
  "startsWith s t = prefix t s"

text \<open>
  Anchored regular expressions (\<^verbatim>\<open>/^...$/\<close>, tested with \<^verbatim>\<open>test\<close> or \<^verbatim>\<open>match\<close>) are kept
  as syntax trees and decided by derivatives; \<open>lang\<close> is their meaning, and
  \<open>matches_lang\<close> below shows that the matcher decides it.
\<close>

datatype rexp =
    Zero
  | Eps
  | Atom "char \<Rightarrow> bool"
  | Alt rexp rexp
  | Times rexp rexp
  | Star rexp

fun nullable :: "rexp \<Rightarrow> bool" where
  "nullable Zero = False"
| "nullable Eps = True"
| "nullable (Atom P) = False"
| "nullable (Alt r s) = (nullable r \<or> nullable s)"
| "nullable (Times r s) = (nullable r \<and> nullable s)"
| "nullable (Star r) = True"

fun deriv :: "char \<Rightarrow> rexp \<Rightarrow> rexp" where
  "deriv c Zero = Zero"
| "deriv c Eps = Zero"
| "deriv c (Atom P) = (if P c then Eps else Zero)"
| "deriv c (Alt r s) = Alt (deriv c r) (deriv c s)"
| "deriv c (Times r s) =
     (if nullable r then Alt (Times (deriv c r) s) (deriv c s) else Times (deriv c r) s)"
| "deriv c (Star r) = Times (deriv c r) (Star r)"

fun matches :: "rexp \<Rightarrow> string \<Rightarrow> bool" where
  "matches r [] = nullable r"
| "matches r (c # cs) = matches (deriv c r) cs"





text \<open>Shorthands for the regular-expression syntax used in the source.\<close>

definition Lit :: "string \<Rightarrow> rexp" where
  "Lit s = foldr (\<lambda>c r. Times (Atom (\<lambda>x. x = c)) r) s Eps"

definition Plus :: "rexp \<Rightarrow> rexp" where
  "Plus r = Times r (Star r)"

definition Opt :: "rexp \<Rightarrow> rexp" where
  "Opt r = Alt r Eps"

definition Seqs :: "rexp list \<Rightarrow> rexp" where
  "Seqs rs = foldr Times rs Eps"

definition Alts :: "rexp list \<Rightarrow> rexp" where
  "Alts rs = foldr Alt rs Zero"

section \<open>git-utils.js\<close>

text \<open>The class \<^verbatim>\<open>[\w\-\.]\<close> (and \<^verbatim>\<open>[\w\.-]\<close>, which is the same set).\<close>

definition isRepoChar :: "char \<Rightarrow> bool" where
  "isRepoChar c = (isWord c \<or> c = CHR ''-'' \<or> c = CHR ''.'')"

definition httpScheme :: rexp where
  "httpScheme = Seqs [Lit ''http'', Opt (Lit ''s''), Lit ''://'']"

text \<open>The six patterns of \<^verbatim>\<open>isGitUrl\<close>, in the order of the source.\<close>

definition gitPatterns :: "rexp list" where
  "gitPatterns =
    [ Seqs [httpScheme, Star (Atom isDot), Lit ''.git''],
      Seqs [httpScheme, Lit ''github.com/'', Plus (Atom isRepoChar), Lit ''/'', Plus (Atom isRepoChar)],
      Seqs [httpScheme, Lit ''gitlab.com/'', Plus (Atom isRepoChar), Lit ''/'', Plus (Atom isRepoChar)],
      Seqs [httpScheme, Lit ''bitbucket.org/'', Plus (Atom isRepoChar), Lit ''/'', Plus (Atom isRepoChar)],
      Seqs [Lit ''git@'', Plus (Atom isRepoChar), Lit '':'', Plus (Atom isRepoChar), Lit ''/'',
            Plus (Atom isRepoChar), Lit ''.git''],
      Seqs [Lit ''ssh://git@'', Plus (Atom isRepoChar), Lit ''/'', Plus (Atom isRepoChar), Lit ''/'',
            Plus (Atom isRepoChar), Lit ''.git''] ]"

definition isGitUrl :: "string \<Rightarrow> bool" where
  "isGitUrl location = list_ex (\<lambda>pattern. matches pattern location) gitPatterns"

text \<open>\<^verbatim>\<open>/^https?:\/\/(github|gitlab|bitbucket)\.(com|org)\/[\w\-\.]+\/[\w\-\.]+$/\<close>\<close>

definition hostingPattern :: rexp where
  "hostingPattern =
     Seqs [httpScheme, Alts [Lit ''github'', Lit ''gitlab'', Lit ''bitbucket''], Lit ''.'',
           Alts [Lit ''com'', Lit ''org''], Lit ''/'', Plus (Atom isRepoChar), Lit ''/'',
           Plus (Atom isRepoChar)]"

text \<open>\<^verbatim>\<open>gitUrl.split('#')[0]\<close>: everything before the first \<^verbatim>\<open>#\<close>.\<close>

definition beforeHash :: "string \<Rightarrow> string" where
  "beforeHash s = takeWhile (\<lambda>c. c \<noteq> CHR ''#'') s"

definition normalizeGitUrl :: "string \<Rightarrow> string" where
  "normalizeGitUrl gitUrl =
     (let normalized = beforeHash gitUrl in
      if matches hostingPattern normalized
      then (if \<not> endsWith normalized ''.git'' then normalized @ ''.git'' else normalized)
      else normalized)"

text \<open>\<^verbatim>\<open>parts.length > 1 ? parts[1] : null\<close> for \<^verbatim>\<open>parts = gitUrl.split('#')\<close>.\<close>

definition extractBranch :: "string \<Rightarrow> string option" where
  "extractBranch gitUrl =
     (if CHR ''#'' \<in> set gitUrl
      then Some (beforeHash (tl (dropWhile (\<lambda>c. c \<noteq> CHR ''#'') gitUrl)))
      else None)"

definition validateGitUrl :: "string \<Rightarrow> bool" where
  "validateGitUrl gitUrl =
     (if \<not> isGitUrl gitUrl then False
      else if strIncludes gitUrl ''..'' \<or> strIncludes gitUrl ''//'' then False
      else if length gitUrl < 10 then False
      else True)"


definition stripPrefix :: "string \<Rightarrow> string \<Rightarrow> string" where
  "stripPrefix p s = (if prefix p s then drop (length p) s else s)"

definition stripSuffix :: "string \<Rightarrow> string \<Rightarrow> string" where
  "stripSuffix p s = (if suffix p s then take (length s - length p) s else s)"

text \<open>\<^verbatim>\<open>s.replace(/c/g, r)\<close> for a single character \<open>c\<close>.\<close>

definition replaceChar :: "char \<Rightarrow> string \<Rightarrow> string \<Rightarrow> string" where
  "replaceChar c r s = concat (map (\<lambda>x. if x = c then r else [x]) s)"

text \<open>
  \<^verbatim>\<open>crypto.createHash('md5')\<close> is a library function: \<open>md5hex\<close> stands for the
  hexadecimal digest and is a parameter of the model.
\<close>

definition readablePart :: "string \<Rightarrow> string" where
  "readablePart normalized =
     filter (\<lambda>c. isLower c \<or> isUpper c \<or> isDigit c \<or> c = CHR ''-'')
       (stripSuffix ''.git''
         (replaceChar CHR ''/'' ''-''
           (replaceChar CHR '':'' ''-''
             (stripPrefix ''ssh://git@''
               (stripPrefix ''git@''
                 (if prefix ''https://'' normalized then drop 8 normalized
                  else stripPrefix ''http://'' normalized))))))"

definition generateCacheKey :: "(string \<Rightarrow> string) \<Rightarrow> string \<Rightarrow> string" where
  "generateCacheKey md5hex gitUrl =
     (let normalized = normalizeGitUrl gitUrl;
          hash = take 8 (md5hex normalized);
          readable = readablePart normalized
      in readable @ ''-'' @ hash)"

text \<open>
  \<^verbatim>\<open>path.join\<close> on segments that are already normalized, and \<^verbatim>\<open>path.dirname\<close>.
\<close>

definition pathJoin :: "string \<Rightarrow> string \<Rightarrow> string" where
  "pathJoin a b = (if b = [] then a else if a = [] then b else a @ ''/'' @ b)"

definition dirname :: "string \<Rightarrow> string" where
  "dirname p =
     (let d = rev (dropWhile (\<lambda>c. c \<noteq> CHR ''/'') (rev p)) in
      if d = [] then ''.'' else if d = ''/'' then ''/'' else butlast d)"

definition getMainCachePath :: "string \<Rightarrow> string" where
  "getMainCachePath home = pathJoin (pathJoin home ''.pqs'') ''cache''"

definition getCachePath :: "(string \<Rightarrow> string) \<Rightarrow> string \<Rightarrow> string \<Rightarrow> string" where
  "getCachePath md5hex home gitUrl =
     pathJoin (pathJoin (pathJoin home ''.pqs'') ''cache'') (generateCacheKey md5hex gitUrl)"

text \<open>
  \<^verbatim>\<open>parseGitUrl\<close>: the two patterns capture host, owner and name. None of the three
  classes contains the separator that follows its group, and the name is followed by
  \<^verbatim>\<open>.git\<close> at the very end, so the groups are found by splitting.
\<close>

record repo_info =
  host :: string
  owner :: string
  name :: string
  full :: string

definition repoSegment :: "string \<Rightarrow> bool" where
  "repoSegment s = (s \<noteq> [] \<and> list_all isRepoChar s)"

definition splitAt :: "char \<Rightarrow> string \<Rightarrow> (string \<times> string) option" where
  "splitAt c s =
     (if c \<in> set s
      then Some (takeWhile (\<lambda>x. x \<noteq> c) s, tl (dropWhile (\<lambda>x. x \<noteq> c) s))
      else None)"

definition captureRepo :: "char \<Rightarrow> string \<Rightarrow> repo_info option" where
  "captureRepo sep s =
     (case splitAt sep s of
        None \<Rightarrow> None
      | Some (h, r) \<Rightarrow>
          (case splitAt CHR ''/'' r of
             None \<Rightarrow> None
           | Some (ow, r') \<Rightarrow>
               (if suffix ''.git'' r' \<and> repoSegment h \<and> repoSegment ow
                   \<and> repoSegment (take (length r' - 4) r')
                then Some \<lparr> host = h, owner = ow, name = take (length r' - 4) r',
                             full = ow @ ''/'' @ take (length r' - 4) r' \<rparr>
                else None)))"

definition parseGitUrl :: "string \<Rightarrow> repo_info" where
  "parseGitUrl gitUrl =
     (let normalized = normalizeGitUrl gitUrl;
          https = (if prefix ''https://'' normalized then captureRepo CHR ''/'' (drop 8 normalized)
                   else if prefix ''http://'' normalized then captureRepo CHR ''/'' (drop 7 normalized)
                   else None);
          ssh = (if prefix ''git@'' normalized then captureRepo CHR '':'' (drop 4 normalized)
                 else None)
      in case https of
           Some info \<Rightarrow> info
         | None \<Rightarrow>
             (case ssh of
                Some info \<Rightarrow> info
              | None \<Rightarrow> \<lparr> host = ''unknown'', owner = ''unknown'', name = ''unknown'',
                            full = ''unknown/unknown'' \<rparr>))"


section \<open>Values and answers\<close>

text \<open>
  A value of a template's \<^verbatim>\<open>values\<close> or of the answers: a string, a boolean, a number
  (integers only) or the array of strings a checkbox returns. An object used as a
  dictionary is a map; \<open>None\<close> is \<^verbatim>\<open>undefined\<close>.
\<close>

datatype jsval = VStr string | VBool bool | VNum int | VArr "string list"

type_synonym answers = "string \<rightharpoonup> jsval"

fun showNat :: "nat \<Rightarrow> string" where
  "showNat n =
     (if n < 10 then [char_of (48 + n)] else showNat (n div 10) @ [char_of (48 + n mod 10)])"

definition showInt :: "int \<Rightarrow> string" where
  "showInt i = (if i < 0 then ''-'' @ showNat (nat (- i)) else showNat (nat i))"

fun joinWith :: "string \<Rightarrow> string list \<Rightarrow> string" where
  "joinWith sep [] = []"
| "joinWith sep [x] = x"
| "joinWith sep (x # y # ys) = x @ sep @ joinWith sep (y # ys)"

text \<open>\<^verbatim>\<open>String(v)\<close>\<close>

fun toStr :: "jsval \<Rightarrow> string" where
  "toStr (VStr s) = s"
| "toStr (VBool b) = (if b then ''true'' else ''false'')"
| "toStr (VNum i) = showInt i"
| "toStr (VArr xs) = joinWith '','' xs"

fun truthy :: "jsval \<Rightarrow> bool" where
  "truthy (VStr s) = (s \<noteq> [])"
| "truthy (VBool b) = b"
| "truthy (VNum i) = (i \<noteq> 0)"
| "truthy (VArr xs) = True"

section \<open>index.js: transformText\<close>

text \<open>
  \<^verbatim>\<open>s.replace(/[P]+/g, r)\<close>: every maximal run of characters of the class \<open>P\<close> becomes
  \<open>r\<close>. The flag says that the previous character belonged to the run.
\<close>

fun replaceRuns :: "(char \<Rightarrow> bool) \<Rightarrow> string \<Rightarrow> bool \<Rightarrow> string \<Rightarrow> string" where
  "replaceRuns P r inRun [] = []"
| "replaceRuns P r inRun (c # cs) =
     (if P c then (if inRun then [] else r) @ replaceRuns P r True cs
      else c # replaceRuns P r False cs)"

definition isCamelSep :: "char \<Rightarrow> bool" where
  "isCamelSep c = (c = CHR ''-'' \<or> c = CHR ''_'' \<or> isSpace c)"

text \<open>
  \<^verbatim>\<open>text.replace(/[-_\s]+(.)?/g, (_, char) => char ? char.toUpperCase() : '')\<close>:
  a maximal run of separators is dropped together with the character after it, which
  comes back upper-cased; a run at the end of the text is just dropped. The flag says
  that a run has just been read. (The character after a maximal run is no separator,
  hence no line terminator, so the dot matches it.)
\<close>

fun camelReplace :: "bool \<Rightarrow> string \<Rightarrow> string" where
  "camelReplace afterRun [] = []"
| "camelReplace afterRun (c # cs) =
     (if isCamelSep c then camelReplace True cs
      else (if afterRun then charToUpper c else c) # camelReplace False cs)"

text \<open>\<^verbatim>\<open>s.replace(/^(.)/, (_, char) => char.toUpperCase())\<close>\<close>

fun upperFirst :: "string \<Rightarrow> string" where
  "upperFirst [] = []"
| "upperFirst (c # cs) = (if isDot c then charToUpper c # cs else c # cs)"

text \<open>
  \<^verbatim>\<open>text.replace(/\w\S*/g, txt => txt.charAt(0).toUpperCase() + txt.substr(1).toLowerCase())\<close>:
  a match starts at a word character and runs to the next white space.
\<close>

fun titleReplace :: "bool \<Rightarrow> string \<Rightarrow> string" where
  "titleReplace inMatch [] = []"
| "titleReplace inMatch (c # cs) =
     (if inMatch
      then (if isSpace c then c # titleReplace False cs else charToLower c # titleReplace True cs)
      else (if isWord c then charToUpper c # titleReplace True cs else c # titleReplace False cs))"

definition isSlugChar :: "char \<Rightarrow> bool" where
  "isSlugChar c = (isLower c \<or> isDigit c)"

text \<open>\<^verbatim>\<open>s.replace(/^-|-$/g, '')\<close>: one hyphen at the start and one at the end.\<close>

definition trimHyphen :: "string \<Rightarrow> string" where
  "trimHyphen s =
     (let t = (case s of [] \<Rightarrow> [] | c # cs \<Rightarrow> if c = CHR ''-'' then cs else s)
      in if t \<noteq> [] \<and> last t = CHR ''-'' then butlast t else t)"

definition kebab :: "string \<Rightarrow> string" where
  "kebab text =
     filter (\<lambda>c. isSlugChar c \<or> c = CHR ''-'')
       (replaceRuns (\<lambda>c. c = CHR ''_'' \<or> isSpace c) ''-'' False (toLowerCase text))"

definition snake :: "string \<Rightarrow> string" where
  "snake text =
     filter (\<lambda>c. isSlugChar c \<or> c = CHR ''_'')
       (replaceRuns (\<lambda>c. c = CHR ''-'' \<or> isSpace c) ''_'' False (toLowerCase text))"

definition slug :: "string \<Rightarrow> string" where
  "slug text =
     trimHyphen
       (replaceRuns (\<lambda>c. c = CHR ''-'') ''-'' False
         (replaceRuns isSpace ''-'' False
           (filter (\<lambda>c. isSlugChar c \<or> isSpace c \<or> c = CHR ''-'') (toLowerCase text))))"

definition transformText :: "string \<Rightarrow> string \<Rightarrow> string" where
  "transformText text transformation =
     (let t = toUpperCase transformation in
      if t = ''UPPER'' then toUpperCase text
      else if t = ''LOWER'' then toLowerCase text
      else if t = ''CAMEL'' then camelReplace False text
      else if t = ''KEBAB'' then kebab text
      else if t = ''SNAKE'' then snake text
      else if t = ''PASCAL'' then upperFirst (camelReplace False text)
      else if t = ''TITLE'' then titleReplace False text
      else if t = ''SLUG'' then slug text
      else text)"


section \<open>Templates, the world and the external collaborators\<close>

text \<open>
  A question as the template definition file gives it. The field \<open>qcondition\<close> is the
  optional \<^verbatim>\<open>condition\<close> function of the definition format.
\<close>

record question =
  qtype :: string
  qname :: string
  message :: string
  argument :: "string option"
  shortArgument :: "string option"
  qdefault :: "jsval option"
  validate :: "(string \<Rightarrow> bool) option"
  qcondition :: "(answers \<Rightarrow> bool) option"
  choices :: "string list"

record step_common =
  condition :: "(answers \<Rightarrow> bool) option"
  description :: "string option"

text \<open>
  A step is tagged by its \<^verbatim>\<open>type\<close>: \<open>ReplaceStep c files\<close>, \<open>CommandStep c command\<close>,
  \<open>CopyStep c source destination exclude\<close>; \<open>OtherStep\<close> is a step of any other type.
\<close>

datatype step =
    ReplaceStep step_common "string list"
  | CommandStep step_common string
  | CopyStep step_common string "string option" "string list option"
  | OtherStep string

record template =
  tname :: string
  tdescription :: "string option"
  tvalues :: "answers option"
  questions :: "question list option"
  texclude :: "string list option"
  steps :: "step list option"
  tpath :: string
  tsource :: string
  tisRemote :: bool
  tsourceInfo :: "repo_info option"

text \<open>The options of the \<^verbatim>\<open>create\<close> command; \<open>others\<close> are the flags of the questions.\<close>

record options =
  outputDir :: "string option"
  force :: bool
  dryRun :: bool
  others :: answers

record cache_entry =
  url :: string
  branch :: "string option"
  lastUpdated :: int
  ehost :: string
  eowner :: string
  ename :: string
  clonedAt :: "int option"

text \<open>The cache index file: absent, unreadable, or a document from cache key to entry.\<close>

datatype index_file = NoIndexFile | BadIndexFile | IndexFile "(string \<times> cache_entry) list"

text \<open>What a run does to its surroundings, in order.\<close>

datatype event =
    Print string
  | PrintErr string
  | Warn string
  | Prompted string
  | ReadFile string
  | WriteFile string string
  | CopyFile string string
  | EnsureDir string
  | RemovePath string
  | Exec string string

text \<open>
  The world: the regular files (absolute path and content), the directories, the cache
  index file, the number of identifiers generated so far, and the trace of events.
\<close>

record world =
  files :: "(string \<times> string) list"
  dirs :: "string list"
  cacheIndex :: index_file
  uuidCounter :: nat
  trace :: "event list"

datatype prompt_outcome = Answered jsval | ExitPrompt | PromptFailure string

datatype exec_outcome = ExecOk string string | ExecFail string

record clone_result =
  cloneOk :: bool
  cloneOutput :: string
  cloneMessage :: string
  cloneCreated :: bool
  cloneFiles :: "(string \<times> string) list"

record clock =
  year :: nat
  month :: nat
  day :: nat
  hours :: nat
  minutes :: nat
  seconds :: nat

datatype error =
    ExitProcess nat
  | UnknownQuestionType string
  | PromptError string
  | TypeError string
  | FsError string
  | InvalidGitUrl string
  | GitUnavailable
  | CloneFailed string
  | NotCloned
  | NotCached
  | NoTemplates string

text \<open>
  The libraries and the surroundings the program calls, as parameters:
  \<open>uuidOf n\<close> is the \<open>n\<close>-th identifier \<^verbatim>\<open>uuid()\<close> returns; \<open>dateFnsFormat p\<close> is
  \<^verbatim>\<open>format(now, p)\<close> of date-fns, \<open>None\<close> when it throws; \<open>glob pattern entries\<close> is the
  result of \<^verbatim>\<open>glob(pattern, {cwd})\<close> where \<open>entries\<close> are the paths below \<open>cwd\<close>;
  \<open>exec command cwd files dirs\<close> runs a shell command and gives its outcome and the
  files and directories afterwards; \<open>prompt\<close> is the interactive prompt; \<open>gitClone\<close> is the
  run of a \<^verbatim>\<open>git clone\<close> command line.
\<close>

record env =
  uuidOf :: "nat \<Rightarrow> string"
  dateFnsFormat :: "string \<Rightarrow> string option"
  nowParts :: clock
  nowMs :: int
  glob :: "string \<Rightarrow> string list \<Rightarrow> string list"
  minimatch :: "string \<Rightarrow> string \<Rightarrow> bool"
  exec :: "string \<Rightarrow> string \<Rightarrow> (string \<times> string) list \<Rightarrow> string list
             \<Rightarrow> exec_outcome \<times> (string \<times> string) list \<times> string list"
  prompt :: "question \<Rightarrow> prompt_outcome"
  cwd :: string
  homedir :: string
  gitInstalled :: bool
  gitClone :: "string \<Rightarrow> clone_result"
  md5hex :: "string \<Rightarrow> string"

definition emit :: "event \<Rightarrow> world \<Rightarrow> world" where
  "emit e w = w\<lparr>trace := trace w @ [e]\<rparr>"

subsection \<open>The file system\<close>

definition isFile :: "string \<Rightarrow> world \<Rightarrow> bool" where
  "isFile p w = (p \<in> set (map fst (files w)))"

definition isDirectory :: "string \<Rightarrow> world \<Rightarrow> bool" where
  "isDirectory p w = (p \<in> set (dirs w))"

definition pathExists :: "string \<Rightarrow> world \<Rightarrow> bool" where
  "pathExists p w = (isFile p w \<or> isDirectory p w)"

text \<open>The paths below a directory, relative to it.\<close>

definition below :: "string \<Rightarrow> string list \<Rightarrow> string list" where
  "below dir ps = map (drop (Suc (length dir))) (filter (prefix (dir @ ''/'')) ps)"

definition filesUnder :: "string \<Rightarrow> world \<Rightarrow> string list" where
  "filesUnder dir w = below dir (map fst (files w))"

definition entriesUnder :: "string \<Rightarrow> world \<Rightarrow> string list" where
  "entriesUnder dir w = below dir (map fst (files w)) @ below dir (dirs w)"

definition readdir :: "string \<Rightarrow> world \<Rightarrow> string list" where
  "readdir dir w = remdups (map (takeWhile (\<lambda>c. c \<noteq> CHR ''/'')) (entriesUnder dir w))"

text \<open>A path and the directories above it.\<close>

fun withParents :: "string \<Rightarrow> string \<Rightarrow> string list" where
  "withParents acc [] = (if acc = [] then [] else [acc])"
| "withParents acc (c # cs) =
     (if c = CHR ''/'' \<and> acc \<noteq> [] then acc # withParents (acc @ [c]) cs
      else withParents (acc @ [c]) cs)"

definition ensureDir :: "string \<Rightarrow> world \<Rightarrow> world" where
  "ensureDir p w =
     emit (EnsureDir p) (w\<lparr>dirs := dirs w @ filter (\<lambda>d. d \<notin> set (dirs w)) (withParents [] p)\<rparr>)"

definition readFile :: "string \<Rightarrow> world \<Rightarrow> string option \<times> world" where
  "readFile p w = (map_of (files w) p, emit (ReadFile p) w)"

text \<open>Assignment to a key of an ordered dictionary: in place, or at the end for a new key.\<close>

definition assign :: "'k \<Rightarrow> 'v \<Rightarrow> ('k \<times> 'v) list \<Rightarrow> ('k \<times> 'v) list" where
  "assign k v kvs =
     (if k \<in> set (map fst kvs) then map (\<lambda>(q, c). if q = k then (q, v) else (q, c)) kvs
      else kvs @ [(k, v)])"

definition putFile :: "string \<Rightarrow> string \<Rightarrow> (string \<times> string) list \<Rightarrow> (string \<times> string) list" where
  "putFile p content fs = assign p content fs"

definition writeFile :: "string \<Rightarrow> string \<Rightarrow> world \<Rightarrow> world" where
  "writeFile p content w = emit (WriteFile p content) (w\<lparr>files := putFile p content (files w)\<rparr>)"

text \<open>\<^verbatim>\<open>fs.copy\<close> of a regular file; \<open>None\<close> when it throws.\<close>

definition copyFile :: "string \<Rightarrow> string \<Rightarrow> world \<Rightarrow> world option" where
  "copyFile src dst w =
     (case map_of (files w) src of
        None \<Rightarrow> None
      | Some content \<Rightarrow>
          if isDirectory dst w then None
          else Some (emit (CopyFile src dst) (w\<lparr>files := putFile dst content (files w)\<rparr>)))"

text \<open>\<^verbatim>\<open>fs.remove\<close>: the path and everything below it.\<close>

definition removePath :: "string \<Rightarrow> world \<Rightarrow> world" where
  "removePath p w =
     emit (RemovePath p)
       (w\<lparr>files := filter (\<lambda>(q, c). q \<noteq> p \<and> \<not> prefix (p @ ''/'') q) (files w),
          dirs := filter (\<lambda>q. q \<noteq> p \<and> \<not> prefix (p @ ''/'') q) (dirs w)\<rparr>)"


section \<open>index.js: the substitution engine\<close>


text \<open>
  \<^verbatim>\<open>s.replace(new RegExp(sub, 'g'), rep)\<close> for a literal, non-empty \<open>sub\<close>: the matches are
  found from left to right and do not overlap. The counter is the number of characters
  of the current match still to be skipped.
\<close>

fun replaceAll :: "string \<Rightarrow> string \<Rightarrow> nat \<Rightarrow> string \<Rightarrow> string" where
  "replaceAll sub rep k [] = []"
| "replaceAll sub rep (Suc k) (c # cs) = replaceAll sub rep k cs"
| "replaceAll sub rep 0 (c # cs) =
     (if prefix sub (c # cs) then rep @ replaceAll sub rep (length sub - 1) cs
      else c # replaceAll sub rep 0 cs)"

text \<open>\<^verbatim>\<open>s.replace(sub, rep)\<close> with a string \<open>sub\<close>: the first occurrence only.\<close>

fun replaceFirst :: "string \<Rightarrow> string \<Rightarrow> string \<Rightarrow> string" where
  "replaceFirst sub rep [] = (if sub = [] then rep else [])"
| "replaceFirst sub rep (c # cs) =
     (if prefix sub (c # cs) then rep @ drop (length sub) (c # cs)
      else c # replaceFirst sub rep cs)"

definition generateUUID :: "env \<Rightarrow> world \<Rightarrow> string \<times> world" where
  "generateUUID e w = (uuidOf e (uuidCounter w), w\<lparr>uuidCounter := Suc (uuidCounter w)\<rparr>)"

definition legacyPatterns :: "(string \<times> string) list" where
  "legacyPatterns =
     [(''YYYY'', ''yyyy''), (''MM'', ''MM''), (''DD'', ''dd''), (''HH'', ''HH''),
      (''mm'', ''mm''), (''ss'', ''ss'')]"

text \<open>\<^verbatim>\<open>String(n).padStart(2, '0')\<close>\<close>

definition pad2 :: "nat \<Rightarrow> string" where
  "pad2 n = (if n < 10 then ''0'' @ showNat n else showNat n)"

definition formatDate :: "env \<Rightarrow> string \<Rightarrow> world \<Rightarrow> string \<times> world" where
  "formatDate e pattern w =
     (let now = nowParts e;
          dateFnsPattern = foldl (\<lambda>acc (legacy, dateFns). replaceAll legacy dateFns 0 acc)
                             pattern legacyPatterns
      in case dateFnsFormat e dateFnsPattern of
           Some formatted \<Rightarrow> (formatted, w)
         | None \<Rightarrow>
             (replaceFirst ''ss'' (pad2 (seconds now))
               (replaceFirst ''mm'' (pad2 (minutes now))
                 (replaceFirst ''HH'' (pad2 (hours now))
                   (replaceFirst ''DD'' (pad2 (day now))
                     (replaceFirst ''MM'' (pad2 (month now))
                       (replaceFirst ''YYYY'' (showNat (year now)) pattern))))),
              emit (Warn (''Warning: Invalid date format pattern '' @ [CHR 0x27] @ pattern
                           @ [CHR 0x27] @ '', using fallback'')) w))"

text \<open>
  One match of \<^verbatim>\<open>/\{\{PQS:([^}]+)\}\}/\<close> at the start of the text: the placeholder is the
  maximal run of characters other than \<^verbatim>\<open>}\<close> after the opening, it is not empty and
  \<^verbatim>\<open>}}\<close> follows it. (A shorter run would have to be followed by \<^verbatim>\<open>}\<close> too.)
\<close>

definition matchToken :: "string \<Rightarrow> string option" where
  "matchToken s =
     (if prefix ''{{PQS:'' s
      then (let r = drop 6 s;
                placeholder = takeWhile (\<lambda>c. c \<noteq> CHR ''}'') r;
                rest = dropWhile (\<lambda>c. c \<noteq> CHR ''}'') r
            in if placeholder \<noteq> [] \<and> prefix ''}}'' rest then Some placeholder else None)
      else None)"

definition tokenText :: "string \<Rightarrow> string" where
  "tokenText placeholder = ''{{PQS:'' @ placeholder @ ''}}''"

text \<open>
  \<^verbatim>\<open>placeholder.match(/^(\w+)\(([^)]+)\)$/)\<close>: the transform is the maximal run of word
  characters, the argument the maximal run of characters other than \<^verbatim>\<open>)\<close>, not empty,
  and the closing parenthesis ends the placeholder.
\<close>

definition transformMatch :: "string \<Rightarrow> (string \<times> string) option" where
  "transformMatch placeholder =
     (let transform = takeWhile isWord placeholder;
          r = dropWhile isWord placeholder
      in if transform \<noteq> [] \<and> prefix ''('' r
         then (let arg = takeWhile (\<lambda>c. c \<noteq> CHR '')'') (tl r);
                   r' = dropWhile (\<lambda>c. c \<noteq> CHR '')'') (tl r)
               in if arg \<noteq> [] \<and> r' = '')'' then Some (transform, arg) else None)
         else None)"

text \<open>The callback of \<^verbatim>\<open>performSubstitutions\<close>: what one matched token is replaced by.\<close>

definition directReplacement :: "answers \<Rightarrow> string \<Rightarrow> string" where
  "directReplacement values placeholder =
     (case values placeholder of
        Some v \<Rightarrow> toStr v
      | None \<Rightarrow> tokenText placeholder)"

definition replacement :: "env \<Rightarrow> answers \<Rightarrow> string \<Rightarrow> world \<Rightarrow> string \<times> world" where
  "replacement e values placeholder w =
     (case transformMatch placeholder of
        Some (transform, arg) \<Rightarrow>
          if transform = ''DATE'' then formatDate e arg w
          else if transform = ''UUID'' then generateUUID e w
          else (case values arg of
                  Some v \<Rightarrow> (transformText (toStr v) transform, w)
                | None \<Rightarrow> (directReplacement values placeholder, w))
      | None \<Rightarrow> (directReplacement values placeholder, w))"

text \<open>
  The scan of \<^verbatim>\<open>content.replace(/\{\{PQS:([^}]+)\}\}/g, callback)\<close>: at each position,
  from left to right, a match is replaced and the scan goes on after it; a character
  where no match starts is kept. The counter is the number of characters of the current
  match still to be skipped.
\<close>

fun substScan :: "env \<Rightarrow> answers \<Rightarrow> nat \<Rightarrow> string \<Rightarrow> world \<Rightarrow> string \<times> world" where
  "substScan e values k [] w = ([], w)"
| "substScan e values (Suc k) (c # cs) w = substScan e values k cs w"
| "substScan e values 0 (c # cs) w =
     (case matchToken (c # cs) of
        None \<Rightarrow> (case substScan e values 0 cs w of (out, w') \<Rightarrow> (c # out, w'))
      | Some placeholder \<Rightarrow>
          (case replacement e values placeholder w of
             (r, w1) \<Rightarrow>
               (case substScan e values (length (tokenText placeholder) - 1) cs w1 of
                  (out, w2) \<Rightarrow> (r @ out, w2))))"

definition performSubstitutions :: "env \<Rightarrow> string \<Rightarrow> answers \<Rightarrow> world \<Rightarrow> string \<times> world" where
  "performSubstitutions e content values w = substScan e values 0 content w"


section \<open>index.js: questions\<close>

definition getCliArgs :: "options \<Rightarrow> answers" where
  "getCliArgs opts =
     (\<lambda>key. if key \<in> {''output'', ''force'', ''dryRun''} then None else others opts key)"

text \<open>\<^verbatim>\<open>question.argument && cliArgs[question.argument] !== undefined\<close>\<close>

definition fromArgument :: "question \<Rightarrow> answers \<Rightarrow> jsval option" where
  "fromArgument q cliArgs =
     (case argument q of
        None \<Rightarrow> None
      | Some a \<Rightarrow> if a = [] then None else cliArgs a)"

text \<open>The loop of \<^verbatim>\<open>askQuestions\<close> over the questions that are left.\<close>

fun askLoop :: "env \<Rightarrow> answers \<Rightarrow> question list \<Rightarrow> answers \<Rightarrow> world \<Rightarrow> (error + answers) \<times> world" where
  "askLoop e cliArgs [] answers w = (Inr answers, w)"
| "askLoop e cliArgs (q # qs) answers w =
     (case fromArgument q cliArgs of
        Some v \<Rightarrow> askLoop e cliArgs qs (answers(qname q \<mapsto> v)) w
      | None \<Rightarrow>
          (case cliArgs (qname q) of
             Some v \<Rightarrow> askLoop e cliArgs qs (answers(qname q \<mapsto> v)) w
           | None \<Rightarrow>
               if qtype q \<in> {''confirm'', ''input'', ''select'', ''checkbox''}
               then (case prompt e q of
                       Answered v \<Rightarrow>
                         askLoop e cliArgs qs (answers(qname q \<mapsto> v)) (emit (Prompted (qname q)) w)
                     | ExitPrompt \<Rightarrow>
                         (Inl (ExitProcess 0),
                          emit (Print (CHR 0x0A # ''Operation cancelled.'')) (emit (Prompted (qname q)) w))
                     | PromptFailure m \<Rightarrow> (Inl (PromptError m), emit (Prompted (qname q)) w))
               else (Inl (UnknownQuestionType (qtype q)), w)))"

definition askQuestions :: "env \<Rightarrow> template \<Rightarrow> answers \<Rightarrow> world \<Rightarrow> (error + answers) \<times> world" where
  "askQuestions e t cliArgs w =
     askLoop e cliArgs (case questions t of Some qs \<Rightarrow> qs | None \<Rightarrow> []) Map.empty w"

section \<open>index.js: copying and the steps\<close>

text \<open>\<^verbatim>\<open>/[*?[\]]/.test(pattern)\<close>\<close>

definition hasGlobMagic :: "string \<Rightarrow> bool" where
  "hasGlobMagic pattern = list_ex (\<lambda>c. c \<in> {CHR ''*'', CHR ''?'', CHR ''['', CHR '']''}) pattern"

text \<open>Both branches for a plain name give the same pattern in the source.\<close>

definition normalizeExclude :: "string \<Rightarrow> string" where
  "normalizeExclude pattern =
     (if hasGlobMagic pattern then pattern
      else if startsWith pattern ''.'' \<and> \<not> strIncludes pattern ''/'' then ''**/'' @ pattern @ ''/**''
      else ''**/'' @ pattern @ ''/**'')"

definition excluded :: "env \<Rightarrow> string list \<Rightarrow> string \<Rightarrow> bool" where
  "excluded e patterns file =
     list_ex (\<lambda>pattern. minimatch e file pattern \<or> minimatch e file (replaceFirst ''/**'' [] pattern))
       patterns"

text \<open>
  The loop that copies the listed files from one root to another; \<open>Some err\<close> when a copy
  throws, with the world as it is then.
\<close>

fun copyAll :: "string \<Rightarrow> string \<Rightarrow> string list \<Rightarrow> world \<Rightarrow> error option \<times> world" where
  "copyAll srcRoot dstRoot [] w = (None, w)"
| "copyAll srcRoot dstRoot (file # rest) w =
     (let srcPath = pathJoin srcRoot file;
          destPath = pathJoin dstRoot file;
          w1 = ensureDir (dirname destPath) w
      in case copyFile srcPath destPath w1 of
           None \<Rightarrow> (Some (FsError srcPath), w1)
         | Some w2 \<Rightarrow> copyAll srcRoot dstRoot rest w2)"

text \<open>
  \<^verbatim>\<open>glob('**/*', {cwd, dot: true, nodir: true})\<close> is every regular file below \<open>cwd\<close>.
  The list of files that \<^verbatim>\<open>copyTemplate\<close> copies or would copy:
\<close>

definition filesToCopy :: "env \<Rightarrow> string \<Rightarrow> string list \<Rightarrow> world \<Rightarrow> string list" where
  "filesToCopy e templatePath excludePatterns w =
     filter (\<lambda>file. \<not> excluded e (map normalizeExclude excludePatterns) file)
       (filesUnder templatePath w)"

definition copyTemplate ::
  "env \<Rightarrow> string \<Rightarrow> string \<Rightarrow> string list \<Rightarrow> bool \<Rightarrow> world \<Rightarrow> (error + string list) \<times> world" where
  "copyTemplate e templatePath outputPath excludePatterns dry w =
     (let fs = filesToCopy e templatePath excludePatterns w in
      if dry
      then (Inr fs, foldl (\<lambda>w' file. emit (Print (''  '' @ file)) w')
                      (emit (Print ''Files that would be copied:'') w) fs)
      else (case copyAll templatePath outputPath fs w of
              (Some err, w') \<Rightarrow> (Inl err, w')
            | (None, w') \<Rightarrow> (Inr fs, w')))"

text \<open>The first loop of \<^verbatim>\<open>processReplaceStep\<close>: the files its patterns match.\<close>

definition filesToProcess :: "env \<Rightarrow> string list \<Rightarrow> string \<Rightarrow> world \<Rightarrow> string list" where
  "filesToProcess e patterns outputPath w =
     concat (map (\<lambda>filePattern. glob e filePattern (entriesUnder outputPath w)) patterns)"

text \<open>Its second loop; a file that cannot be read is skipped.\<close>

fun replaceIn :: "env \<Rightarrow> string \<Rightarrow> answers \<Rightarrow> string list \<Rightarrow> world \<Rightarrow> world" where
  "replaceIn e outputPath values [] w = w"
| "replaceIn e outputPath values (file # rest) w =
     (let filePath = pathJoin outputPath file in
      case readFile filePath w of
        (None, w1) \<Rightarrow> replaceIn e outputPath values rest w1
      | (Some content, w1) \<Rightarrow>
          (case performSubstitutions e content values w1 of
             (processedContent, w2) \<Rightarrow>
               replaceIn e outputPath values rest (writeFile filePath processedContent w2)))"

text \<open>
  \<^verbatim>\<open>processReplaceStep(step, outputPath, values, dryRun)\<close>. The body reads \<^verbatim>\<open>step.files\<close> and
  nothing else of the step.
\<close>

definition processReplaceStep ::
  "env \<Rightarrow> step_common \<Rightarrow> string list \<Rightarrow> string \<Rightarrow> answers \<Rightarrow> bool \<Rightarrow> world \<Rightarrow> world" where
  "processReplaceStep e common patterns outputPath values dry w =
     (let fs = filesToProcess e patterns outputPath w in
      if dry
      then emit (Print (''  Replace step would process files: '' @ joinWith '', '' fs)) w
      else replaceIn e outputPath values fs w)"

definition conditionFails :: "step_common \<Rightarrow> answers \<Rightarrow> bool" where
  "conditionFails common answers =
     (case condition common of
        None \<Rightarrow> False
      | Some c \<Rightarrow> \<not> c answers)"

definition printIf :: "(string \<Rightarrow> event) \<Rightarrow> string \<Rightarrow> world \<Rightarrow> world" where
  "printIf mk text w = (if text = [] then w else emit (mk text) w)"

definition processCommandStep ::
  "env \<Rightarrow> step_common \<Rightarrow> string \<Rightarrow> string \<Rightarrow> answers \<Rightarrow> bool \<Rightarrow> world \<Rightarrow> world" where
  "processCommandStep e common command outputPath answers dry w =
     (if conditionFails common answers then w
      else if dry then emit (Print (''  Command step would run: '' @ command)) w
      else
        (let w1 = (case description common of
                     None \<Rightarrow> w
                   | Some d \<Rightarrow> printIf Print d w)
         in case exec e command outputPath (files w1) (dirs w1) of
              (outcome, files', dirs') \<Rightarrow>
                (let w2 = emit (Exec command outputPath) (w1\<lparr>files := files', dirs := dirs'\<rparr>)
                 in case outcome of
                      ExecOk stdout stderr \<Rightarrow> printIf PrintErr stderr (printIf Print stdout w2)
                    | ExecFail m \<Rightarrow> emit (PrintErr (''Command failed: '' @ m)) w2)))"

definition getFilesToCopy :: "env \<Rightarrow> string \<Rightarrow> string list \<Rightarrow> world \<Rightarrow> string list" where
  "getFilesToCopy e sourcePath excludePatterns w =
     (let allFiles = filesUnder sourcePath w in
      if excludePatterns = [] then allFiles
      else filter (\<lambda>file. \<not> excluded e excludePatterns file) allFiles)"

definition quoted :: "string \<Rightarrow> string" where
  "quoted s = [CHR 0x27] @ s @ [CHR 0x27]"

definition processCopyStep ::
  "env \<Rightarrow> step_common \<Rightarrow> string \<Rightarrow> string option \<Rightarrow> string list option \<Rightarrow> string \<Rightarrow> string
     \<Rightarrow> answers \<Rightarrow> bool \<Rightarrow> world \<Rightarrow> world" where
  "processCopyStep e common source dest excl templatePath outputPath answers dry w =
     (if conditionFails common answers then w
      else
        (let destination = (case dest of None \<Rightarrow> source | Some d \<Rightarrow> if d = [] then source else d);
             excludePatterns = (case excl of None \<Rightarrow> [] | Some x \<Rightarrow> x);
             sourcePath = pathJoin templatePath source;
             destPath = pathJoin outputPath destination
         in if dry
            then (let w1 = emit (Print (''  Copy step would copy '' @ quoted source @ '' to ''
                                         @ quoted destination)) w
                  in if excludePatterns \<noteq> []
                     then emit (Print (''    Excluding: '' @ joinWith '', '' excludePatterns)) w1
                     else w1)
            else if \<not> pathExists sourcePath w
            then emit (Warn (''Warning: Source path '' @ quoted source @ '' not found in template'')) w
            else if isDirectory sourcePath w
            then (case copyAll sourcePath destPath (getFilesToCopy e sourcePath excludePatterns w) w of
                    (Some err, w') \<Rightarrow> emit (PrintErr (''Failed to copy '' @ quoted source)) w'
                  | (None, w') \<Rightarrow> w')
            else (let w1 = ensureDir (dirname destPath) w
                  in case copyFile sourcePath destPath w1 of
                       None \<Rightarrow> emit (PrintErr (''Failed to copy '' @ quoted source)) w1
                     | Some w2 \<Rightarrow> w2)))"


section \<open>index.js: createProject\<close>

definition templateLine :: "string \<times> template \<Rightarrow> string" where
  "templateLine nt =
     (case nt of (key, t) \<Rightarrow>
        ''  '' @ key
        @ (case tdescription t of None \<Rightarrow> [] | Some d \<Rightarrow> if d = [] then [] else '' - '' @ d)
        @ (case (tisRemote t, tsourceInfo t) of
             (True, Some info) \<Rightarrow> '' (remote: '' @ host info @ ''/'' @ full info @ '')''
           | (True, None) \<Rightarrow> []
           | (False, _) \<Rightarrow> '' (local: '' @ tsource t @ '')''))"

definition listTemplates :: "(string \<times> template) list \<Rightarrow> world \<Rightarrow> world" where
  "listTemplates templates w =
     (if templates = [] then emit (Print ''No templates found.'') w
      else foldl (\<lambda>w' nt. emit (Print (templateLine nt)) w')
             (emit (Print ''Available templates:'') w) templates)"

text \<open>\<^verbatim>\<open>path.resolve\<close> of one path against the working directory.\<close>

definition resolvePath :: "string \<Rightarrow> string \<Rightarrow> string" where
  "resolvePath base p = (if prefix ''/'' p then p else pathJoin base p)"

text \<open>
  \<^verbatim>\<open>answers.projectName || answers.name || answers.project || 'new-project'\<close>: the first
  of the three that is defined and truthy.
\<close>

definition projectNameOf :: "answers \<Rightarrow> jsval" where
  "projectNameOf answers =
     (case filter truthy (List.map_filter answers [''projectName'', ''name'', ''project'']) of
        [] \<Rightarrow> VStr ''new-project''
      | v # _ \<Rightarrow> v)"

text \<open>
  The output path. \<^verbatim>\<open>transformText\<close> calls \<^verbatim>\<open>toLowerCase\<close> on the project name, which
  only a string has.
\<close>

definition resolveOutputPath :: "env \<Rightarrow> options \<Rightarrow> answers \<Rightarrow> error + string" where
  "resolveOutputPath e opts answers =
     (case outputDir opts of
        Some out \<Rightarrow>
          if out \<noteq> [] then Inr (resolvePath (cwd e) out)
          else (case projectNameOf answers of
                  VStr projectName \<Rightarrow> Inr (resolvePath (cwd e) (transformText projectName ''SLUG''))
                | _ \<Rightarrow> Inl (TypeError ''text.toLowerCase is not a function''))
      | None \<Rightarrow>
          (case projectNameOf answers of
             VStr projectName \<Rightarrow> Inr (resolvePath (cwd e) (transformText projectName ''SLUG''))
           | _ \<Rightarrow> Inl (TypeError ''text.toLowerCase is not a function'')))"

text \<open>The dispatch on \<^verbatim>\<open>step.type\<close> in the loop over the steps.\<close>

fun processStep :: "env \<Rightarrow> template \<Rightarrow> string \<Rightarrow> answers \<Rightarrow> bool \<Rightarrow> step \<Rightarrow> world \<Rightarrow> world" where
  "processStep e t outputPath answers dry (ReplaceStep common patterns) w =
     processReplaceStep e common patterns outputPath
       ((case tvalues t of None \<Rightarrow> Map.empty | Some vs \<Rightarrow> vs) ++ answers) dry w"
| "processStep e t outputPath answers dry (CommandStep common command) w =
     processCommandStep e common command outputPath answers dry w"
| "processStep e t outputPath answers dry (CopyStep common source dest excl) w =
     processCopyStep e common source dest excl (tpath t) outputPath answers dry w"
| "processStep e t outputPath answers dry (OtherStep ty) w = w"

definition processSteps :: "env \<Rightarrow> template \<Rightarrow> string \<Rightarrow> answers \<Rightarrow> bool \<Rightarrow> world \<Rightarrow> world" where
  "processSteps e t outputPath answers dry w =
     (case steps t of
        None \<Rightarrow> w
      | Some ss \<Rightarrow>
          foldl (\<lambda>w' s. processStep e t outputPath answers dry s w')
            (emit (Print (CHR 0x0A # ''Processing template steps...'')) w) ss)"

text \<open>
  The part of \<^verbatim>\<open>createProject\<close> after the questions, in two pieces: the copy phase and
  the step phase for a given output path, and before it the output path and the guard.
\<close>

definition runPhases :: "env \<Rightarrow> template \<Rightarrow> options \<Rightarrow> answers \<Rightarrow> string \<Rightarrow> world \<Rightarrow> (error + unit) \<times> world" where
  "runPhases e t opts answers outputPath w =
     (case copyTemplate e (tpath t) outputPath
             (case texclude t of None \<Rightarrow> [] | Some x \<Rightarrow> x) (dryRun opts)
             (emit (Print (CHR 0x0A # ''Copying template files...'')) w) of
        (Inl err, w4) \<Rightarrow> (Inl err, w4)
      | (Inr copiedFiles, w4) \<Rightarrow>
          (Inr (),
           emit (Print (if dryRun opts then CHR 0x0A # ''--- END DRY RUN ---''
                        else CHR 0x0A # ''Project created successfully!''))
             (processSteps e t outputPath answers (dryRun opts) w4)))"

definition materialize :: "env \<Rightarrow> template \<Rightarrow> options \<Rightarrow> answers \<Rightarrow> world \<Rightarrow> (error + unit) \<times> world" where
  "materialize e t opts answers w =
     (case resolveOutputPath e opts answers of
        Inl err \<Rightarrow> (Inl err, w)
      | Inr outputPath \<Rightarrow>
          if pathExists outputPath w \<and> \<not> isDirectory outputPath w
          then (Inl (FsError outputPath), w)
          else if pathExists outputPath w \<and> readdir outputPath w \<noteq> [] \<and> \<not> force opts
          then (Inr (),
                emit (PrintErr (''Output directory '' @ outputPath
                                 @ '' is not empty. Use --force to override.'')) w)
          else
            (let w1 = emit (Print (''Output directory: '' @ outputPath)) w;
                 w2 = (if \<not> dryRun opts then ensureDir outputPath w1 else w1)
             in runPhases e t opts answers outputPath w2))"

text \<open>
  \<^verbatim>\<open>createProject\<close>, from the templates that \<^verbatim>\<open>discoverTemplates\<close> has collected
  (\<^verbatim>\<open>this.templates\<close>, by name).
\<close>

definition createProject ::
  "env \<Rightarrow> (string \<times> template) list \<Rightarrow> string \<Rightarrow> options \<Rightarrow> world \<Rightarrow> (error + unit) \<times> world" where
  "createProject e templates templateName opts w =
     (case map_of templates templateName of
        None \<Rightarrow>
          (Inr (), listTemplates templates
                     (emit (PrintErr (''Template '' @ [CHR 0x22] @ templateName @ [CHR 0x22]
                                      @ '' not found.'')) w))
      | Some t \<Rightarrow>
          (let w1 = emit (Print (''Creating project from template: '' @ tname t)) w;
               w2 = (if dryRun opts then emit (Print (CHR 0x0A # ''--- DRY RUN MODE ---'')) w1 else w1)
           in case askQuestions e t (getCliArgs opts) w2 of
                (Inl err, w3) \<Rightarrow> (Inl err, w3)
              | (Inr answers, w3) \<Rightarrow> materialize e t opts answers w3))"


subsection \<open>Runs that only report\<close>



section \<open>cache-manager.js\<close>

definition initializeCache :: "env \<Rightarrow> world \<Rightarrow> world" where
  "initializeCache e w =
     (let w1 = ensureDir (getMainCachePath (homedir e)) w in
      if cacheIndex w1 = NoIndexFile then w1\<lparr>cacheIndex := IndexFile []\<rparr> else w1)"

text \<open>A failed load warns and yields the empty index.\<close>

definition loadCacheIndex :: "world \<Rightarrow> (string \<times> cache_entry) list \<times> world" where
  "loadCacheIndex w =
     (case cacheIndex w of
        NoIndexFile \<Rightarrow> ([], w)
      | BadIndexFile \<Rightarrow> ([], emit (Warn ''Warning: Failed to load cache index'') w)
      | IndexFile index \<Rightarrow> (index, w))"

definition saveCacheIndex :: "(string \<times> cache_entry) list \<Rightarrow> world \<Rightarrow> world" where
  "saveCacheIndex index w = w\<lparr>cacheIndex := IndexFile index\<rparr>"

text \<open>
  \<^verbatim>\<open>getCacheInfo\<close>: the entry of the index, when the index has one for the cache key and
  the cache path exists; the result object then has \<^verbatim>\<open>exists: true\<close>.
\<close>

definition getCacheInfo :: "env \<Rightarrow> string \<Rightarrow> world \<Rightarrow> cache_entry option \<times> world" where
  "getCacheInfo e gitUrl w =
     (let cacheKey = generateCacheKey (md5hex e) gitUrl;
          cachePath = getCachePath (md5hex e) (homedir e) gitUrl
      in case loadCacheIndex w of
           (index, w1) \<Rightarrow>
             (case map_of index cacheKey of
                Some entry \<Rightarrow> if pathExists cachePath w1 then (Some entry, w1) else (None, w1)
              | None \<Rightarrow> (None, w1)))"

definition updateCacheEntry :: "env \<Rightarrow> string \<Rightarrow> int option \<Rightarrow> world \<Rightarrow> world" where
  "updateCacheEntry e gitUrl cloned w =
     (let cacheKey = generateCacheKey (md5hex e) gitUrl in
      case loadCacheIndex w of
        (index, w1) \<Rightarrow>
          (let repoInfo = parseGitUrl gitUrl in
           saveCacheIndex
             (assign cacheKey
                \<lparr> url = normalizeGitUrl gitUrl, branch = extractBranch gitUrl,
                  lastUpdated = nowMs e, ehost = host repoInfo, eowner = owner repoInfo,
                  ename = name repoInfo, clonedAt = cloned \<rparr> index) w1))"

definition removeCacheEntry :: "env \<Rightarrow> string \<Rightarrow> world \<Rightarrow> world" where
  "removeCacheEntry e gitUrl w =
     (let cacheKey = generateCacheKey (md5hex e) gitUrl;
          cachePath = getCachePath (md5hex e) (homedir e) gitUrl
      in case loadCacheIndex w of
           (index, w1) \<Rightarrow>
             (let w2 = saveCacheIndex (filter (\<lambda>(k, v). k \<noteq> cacheKey) index) w1 in
              if pathExists cachePath w2 then removePath cachePath w2 else w2))"

text \<open>Times are in milliseconds; \<open>lastUpdated\<close> is the time the entry was written.\<close>

definition isCacheStale :: "env \<Rightarrow> string \<Rightarrow> int \<Rightarrow> world \<Rightarrow> bool \<times> world" where
  "isCacheStale e gitUrl maxAgeDays w =
     (case getCacheInfo e gitUrl w of
        (None, w1) \<Rightarrow> (True, w1)
      | (Some cacheInfo, w1) \<Rightarrow>
          (let maxAge = maxAgeDays * 24 * 60 * 60 * 1000 in
           (nowMs e - lastUpdated cacheInfo > maxAge, w1)))"

section \<open>git-cloner.js\<close>

record clone_options =
  forceClone :: bool
  quiet :: bool
  branchOpt :: "string option"

definition isGitAvailable :: "env \<Rightarrow> world \<Rightarrow> bool \<times> world" where
  "isGitAvailable e w = (gitInstalled e, emit (Exec ''git --version'' (cwd e)) w)"

definition trim :: "string \<Rightarrow> string" where
  "trim s = rev (dropWhile isSpace (rev (dropWhile isSpace s)))"

definition dquoted :: "string \<Rightarrow> string" where
  "dquoted s = [CHR 0x22] @ s @ [CHR 0x22]"

text \<open>\<^verbatim>\<open>branch || GitUtils.extractBranch(gitUrl)\<close>, and then \<^verbatim>\<open>if (targetBranch)\<close>.\<close>

definition targetBranch :: "string option \<Rightarrow> string \<Rightarrow> string option" where
  "targetBranch b gitUrl =
     (let t = (case b of Some x \<Rightarrow> if x \<noteq> [] then Some x else extractBranch gitUrl
                       | None \<Rightarrow> extractBranch gitUrl)
      in case t of Some x \<Rightarrow> if x \<noteq> [] then Some x else None | None \<Rightarrow> None)"

definition cloneCommand :: "string \<Rightarrow> string \<Rightarrow> clone_options \<Rightarrow> string" where
  "cloneCommand gitUrl targetPath opts =
     ''git clone --depth 1''
     @ (case targetBranch (branchOpt opts) gitUrl of Some b \<Rightarrow> '' --branch '' @ b | None \<Rightarrow> [])
     @ (if quiet opts then '' --quiet'' else [])
     @ '' '' @ dquoted (normalizeGitUrl gitUrl) @ '' '' @ dquoted targetPath"

definition cloneRepository :: "env \<Rightarrow> string \<Rightarrow> string \<Rightarrow> clone_options \<Rightarrow> world \<Rightarrow> (error + unit) \<times> world" where
  "cloneRepository e gitUrl targetPath opts w =
     (let w1 = ensureDir (dirname targetPath) w;
          command = cloneCommand gitUrl targetPath opts;
          r = gitClone e command;
          w2 = emit (Exec command (cwd e))
                 (if cloneCreated r
                  then w1\<lparr>dirs := dirs w1 @ [targetPath],
                          files := files w1 @ map (\<lambda>(f, c). (pathJoin targetPath f, c)) (cloneFiles r)\<rparr>
                  else w1)
      in if \<not> cloneOk r
         then (Inl (CloneFailed (''Failed to clone repository: '' @ cloneMessage r)),
               if pathExists targetPath w2 then removePath targetPath w2 else w2)
         else
           (let w3 = (if \<not> quiet opts \<and> trim (cloneOutput r) \<noteq> []
                      then emit (Print (trim (cloneOutput r))) w2 else w2)
            in if \<not> pathExists targetPath w3 then (Inl NotCloned, w3)
               else (let gitDir = pathJoin targetPath ''.git''
                     in (Inr (), if pathExists gitDir w3 then removePath gitDir w3 else w3))))"

definition cloneOrGetCached :: "env \<Rightarrow> string \<Rightarrow> clone_options \<Rightarrow> world \<Rightarrow> (error + string) \<times> world" where
  "cloneOrGetCached e gitUrl opts w =
     (if \<not> validateGitUrl gitUrl then (Inl (InvalidGitUrl gitUrl), w)
      else
        (case isGitAvailable e w of
           (False, w1) \<Rightarrow> (Inl GitUnavailable, w1)
         | (True, w1) \<Rightarrow>
             (let w2 = initializeCache e w1;
                  cachePath = getCachePath (md5hex e) (homedir e) gitUrl
              in case getCacheInfo e gitUrl w2 of
                   (cacheInfo, w3) \<Rightarrow>
                     if \<not> forceClone opts \<and> cacheInfo \<noteq> None
                     then (Inr cachePath,
                           if \<not> quiet opts
                           then emit (Print (''Using cached template from '' @ full (parseGitUrl gitUrl))) w3
                           else w3)
                     else
                       (let w4 = (if forceClone opts \<and> cacheInfo \<noteq> None
                                  then removePath cachePath w3 else w3);
                            w5 = (if \<not> quiet opts
                                  then emit (Print (''Downloading template from ''
                                                     @ full (parseGitUrl gitUrl) @ ''...'')) w4
                                  else w4)
                        in case cloneRepository e gitUrl cachePath opts w5 of
                             (Inl err, w6) \<Rightarrow> (Inl err, w6)
                           | (Inr u, w6) \<Rightarrow>
                               (let w7 = updateCacheEntry e gitUrl (Some (nowMs e)) w6
                                in (Inr cachePath,
                                    if \<not> quiet opts
                                    then emit (Print ''Template cached successfully'') w7
                                    else w7))))))"

section \<open>template-source.js\<close>

record template_source =
  location :: string
  isRemote :: bool

definition TemplateSource :: "string \<Rightarrow> template_source" where
  "TemplateSource loc = \<lparr> location = loc, isRemote = isGitUrl loc \<rparr>"

definition getLocalPath :: "env \<Rightarrow> template_source \<Rightarrow> string" where
  "getLocalPath e src =
     (if isRemote src then getCachePath (md5hex e) (homedir e) (location src)
      else replaceFirst ''~'' (homedir e) (location src))"

text \<open>
  \<^verbatim>\<open>isAvailable\<close>: for a remote source \<^verbatim>\<open>validateGitUrl(location) && (await isGitAvailable())\<close>,
  where git is only asked for when the URL is valid.
\<close>

definition isAvailable :: "env \<Rightarrow> template_source \<Rightarrow> world \<Rightarrow> bool \<times> world" where
  "isAvailable e src w =
     (if isRemote src
      then (if validateGitUrl (location src) then isGitAvailable e w else (False, w))
      else (pathExists (getLocalPath e src) w, w))"


section \<open>Fixtures\<close>

text \<open>
  Concrete collaborators for the examples: \<open>glob\<close> and \<open>minimatch\<close> of a pattern without
  wildcards (the entry of exactly that name), a shell in which every command succeeds
  silently and changes nothing, a \<^verbatim>\<open>git clone\<close> that fails, a user who answers \<^verbatim>\<open>false\<close> to
  a confirmation and \<^verbatim>\<open>x\<close> to anything else.
\<close>

definition literalEnv :: env where
  "literalEnv =
     \<lparr> uuidOf = (\<lambda>n. ''uuid-'' @ showNat n),
       dateFnsFormat = (\<lambda>p. None),
       nowParts = \<lparr> year = 2025, month = 1, day = 11, hours = 0, minutes = 0, seconds = 0 \<rparr>,
       nowMs = 864000000,
       glob = (\<lambda>pattern entries. filter (\<lambda>x. x = pattern) entries),
       minimatch = (\<lambda>file pattern. file = pattern),
       exec = (\<lambda>command dir fs ds. (ExecOk [] [], fs, ds)),
       prompt = (\<lambda>q. if qtype q = ''confirm'' then Answered (VBool False) else Answered (VStr ''x'')),
       cwd = ''/work'',
       homedir = ''/home/u'',
       gitInstalled = True,
       gitClone = (\<lambda>command. \<lparr> cloneOk = False, cloneOutput = [], cloneMessage = ''offline'',
                               cloneCreated = False, cloneFiles = [] \<rparr>),
       md5hex = (\<lambda>s. ''0123456789abcdef0123456789abcdef'') \<rparr>"

definition emptyWorld :: world where
  "emptyWorld = \<lparr> files = [], dirs = [], cacheIndex = NoIndexFile, uuidCounter = 0, trace = [] \<rparr>"


text \<open>
  A template directory with one file; a step list with a replace step whose condition is
  false, and one with a replace step and a copy step whose source does not exist.
\<close>

definition templateWorld :: world where
  "templateWorld =
     \<lparr> files = [(''/tpl/a.txt'', ''{{PQS:greeting}} {{PQS:who}}'')], dirs = [''/tpl''],
       cacheIndex = NoIndexFile, uuidCounter = 0, trace = [] \<rparr>"

definition guardedTemplate :: template where
  "guardedTemplate =
     \<lparr> tname = ''demo'', tdescription = None,
       tvalues = Some [''greeting'' \<mapsto> VStr ''hello'', ''who'' \<mapsto> VStr ''world''],
       questions = None, texclude = None,
       steps = Some [ReplaceStep \<lparr> condition = Some (\<lambda>answers. False), description = None \<rparr>
                       [''a.txt'']],
       tpath = ''/tpl'', tsource = ''/tpl'', tisRemote = False, tsourceInfo = None \<rparr>"


definition toOut :: "bool \<Rightarrow> options" where
  "toOut dry = \<lparr> outputDir = Some ''out'', force = False, dryRun = dry, others = Map.empty \<rparr>"

text \<open>
  Two questions: a confirmation, and an input whose condition asks for the confirmation
  to have been answered with \<^verbatim>\<open>true\<close>.
\<close>

definition twoQuestions :: template where
  "twoQuestions =
     \<lparr> tname = ''ask'', tdescription = None, tvalues = None,
       questions = Some
         [\<lparr> qtype = ''confirm'', qname = ''first'', message = ''First?'', argument = None,
            shortArgument = None, qdefault = None, validate = None, qcondition = None,
            choices = [] \<rparr>,
          \<lparr> qtype = ''input'', qname = ''second'', message = ''Second:'', argument = None,
            shortArgument = None, qdefault = None, validate = None,
            qcondition = Some (\<lambda>answers. answers ''first'' = Some (VBool True)),
            choices = [] \<rparr>],
       texclude = None, steps = None,
       tpath = ''/tpl'', tsource = ''/tpl'', tisRemote = False, tsourceInfo = None \<rparr>"

text \<open>
  A cache with one entry, written ten days before the time of \<open>literalEnv\<close>, and its
  directory.
\<close>

definition cachedWorld :: world where
  "cachedWorld =
     \<lparr> files = [(''/home/u/.pqs/cache/githubcom-user-repo-01234567/pqs.config.js'', ''x'')],
       dirs = [''/home'', ''/home/u'', ''/home/u/.pqs'', ''/home/u/.pqs/cache'',
               ''/home/u/.pqs/cache/githubcom-user-repo-01234567''],
       cacheIndex = IndexFile
         [(''githubcom-user-repo-01234567'',
           \<lparr> url = ''git@github.com:user/repo.git'', branch = None, lastUpdated = 0,
             ehost = ''github.com'', eowner = ''user'', ename = ''repo'', clonedAt = Some 0 \<rparr>)],
       uuidCounter = 0, trace = [] \<rparr>"


definition ordinaryRead :: clone_options where
  "ordinaryRead = \<lparr> forceClone = False, quiet = True, branchOpt = None \<rparr>"

section \<open>The matcher decides the language\<close>








section \<open>git-utils.js: validation and normalization\<close>

lemma strIncludes_prefix: "prefix t s \<Longrightarrow> strIncludes s t"
  by (cases s) auto

lemma strIncludes_append: "strIncludes (p @ t @ q) t"
  by (induction p) (auto simp: strIncludes_prefix)

lemma strIncludes_iff: "strIncludes s t \<longleftrightarrow> (\<exists>p q. s = p @ t @ q)"
proof
  show "strIncludes s t \<Longrightarrow> \<exists>p q. s = p @ t @ q"
  proof (induction s)
    case Nil
    then show ?case by simp
  next
    case (Cons c cs)
    show ?case
    proof (cases "prefix t (c # cs)")
      case True
      then obtain q where "c # cs = t @ q" by (auto simp: prefix_def)
      then have "c # cs = [] @ t @ q" by simp
      then show ?thesis by blast
    next
      case False
      with Cons.prems have "strIncludes cs t" by simp
      with Cons.IH obtain p q where "cs = p @ t @ q" by blast
      then have "c # cs = (c # p) @ t @ q" by simp
      then show ?thesis by blast
    qed
  qed
next
  assume "\<exists>p q. s = p @ t @ q"
  then show "strIncludes s t" using strIncludes_append by blast
qed

lemma validateGitUrl_double_slash: "strIncludes loc ''//'' \<Longrightarrow> \<not> validateGitUrl loc"
  by (simp add: validateGitUrl_def)

lemma http_has_double_slash:
  "startsWith loc ''http://'' \<or> startsWith loc ''https://'' \<Longrightarrow> strIncludes loc ''//''"
proof -
  assume "startsWith loc ''http://'' \<or> startsWith loc ''https://''"
  then obtain q where "loc = ''http:'' @ ''//'' @ q \<or> loc = ''https:'' @ ''//'' @ q"
    by (auto simp: startsWith_def prefix_def)
  then show ?thesis using strIncludes_append by metis
qed

text \<open>
  Claim C6. A location that contains \<^verbatim>\<open>//\<close>, as every location that starts with
  \<^verbatim>\<open>http://\<close> or \<^verbatim>\<open>https://\<close> does, fails \<^verbatim>\<open>validateGitUrl\<close>; so for a remote source
  with an HTTPS location \<^verbatim>\<open>isAvailable\<close> is false in every environment and world (git
  installed or not, repository cached or not), and it does not even ask for git.
\<close>

theorem https_source_never_available:
  "(strIncludes loc ''//'' \<longrightarrow> validateGitUrl loc = False)
   \<and> (startsWith loc ''http://'' \<or> startsWith loc ''https://'' \<longrightarrow> validateGitUrl loc = False)
   \<and> (startsWith loc ''https://'' \<and> isRemote (TemplateSource loc)
        \<longrightarrow> isAvailable e (TemplateSource loc) w = (False, w))"
proof (intro conjI impI)
  show "strIncludes loc ''//'' \<Longrightarrow> validateGitUrl loc = False"
    using validateGitUrl_double_slash by simp
  show "startsWith loc ''http://'' \<or> startsWith loc ''https://'' \<Longrightarrow> validateGitUrl loc = False"
    using validateGitUrl_double_slash http_has_double_slash by blast
  show "startsWith loc ''https://'' \<and> isRemote (TemplateSource loc)
          \<Longrightarrow> isAvailable e (TemplateSource loc) w = (False, w)"
    using validateGitUrl_double_slash http_has_double_slash
    by (auto simp: isAvailable_def TemplateSource_def)
qed

theorem https_source_never_available_witness:
  "strIncludes ''https://github.com/user/repo.git'' ''//''
   \<and> startsWith ''https://github.com/user/repo.git'' ''https://''
   \<and> isRemote (TemplateSource ''https://github.com/user/repo.git'')
   \<and> validateGitUrl ''https://github.com/user/repo.git'' = False
   \<and> isAvailable literalEnv (TemplateSource ''https://github.com/user/repo.git'') emptyWorld
       = (False, emptyWorld)"
proof -
  have a: "strIncludes ''https://github.com/user/repo.git'' ''//''" by code_simp
  have b: "startsWith ''https://github.com/user/repo.git'' ''https://''" by code_simp
  have c: "isRemote (TemplateSource ''https://github.com/user/repo.git'')" by code_simp
  show ?thesis
    using a b c
      https_source_never_available [of "''https://github.com/user/repo.git''" literalEnv emptyWorld]
    by blast
qed














section \<open>index.js: substitution\<close>


lemma pascal_is_camel_upperFirst:
  "transformText text ''PASCAL'' = upperFirst (transformText text ''CAMEL'')"
proof -
  have p: "toUpperCase ''PASCAL'' = ''PASCAL''" by code_simp
  have c: "toUpperCase ''CAMEL'' = ''CAMEL''" by code_simp
  show ?thesis by (simp add: transformText_def Let_def p c)
qed












text \<open>A content in which \<^verbatim>\<open>{{PQS:\<close> does not occur is returned as it is.\<close>

lemma matchToken_needs_opening: "\<not> prefix ''{{PQS:'' s \<Longrightarrow> matchToken s = None"
  by (simp add: matchToken_def)

lemma token_free_unchanged:
  "\<not> strIncludes content ''{{PQS:'' \<Longrightarrow> performSubstitutions e content vals w = (content, w)"
  unfolding performSubstitutions_def
  by (induction content) (simp_all add: matchToken_needs_opening)

text \<open>
  Claim C4. The engine has no case for \<^verbatim>\<open>UUID_FIXED\<close>: with a name that the values do not
  define, every occurrence of the token stays in the output as it is, in every
  environment and world, so no identifier is substituted and two runs give the same
  text; no identifier is generated either (the world is unchanged). With a name that the
  values define, the token becomes that value.
\<close>

theorem uuid_fixed_left_verbatim:
  "performSubstitutions e ''{{PQS:UUID_FIXED(a)}} {{PQS:UUID_FIXED(a)}} {{PQS:UUID_FIXED(b)}}'' Map.empty w
     = (''{{PQS:UUID_FIXED(a)}} {{PQS:UUID_FIXED(a)}} {{PQS:UUID_FIXED(b)}}'', w)
   \<and> performSubstitutions e ''{{PQS:UUID_FIXED(a)}}'' [''a'' \<mapsto> VStr ''v''] w = (''v'', w)"
  by code_simp

text \<open>
  Claim C5. The engine has no pass for block conditionals: the delimiters are not
  tokens of the scan, so a content with both kinds of block comes back unchanged,
  delimiters and both bodies included, whatever the values say about the condition.
\<close>

theorem block_conditional_left_verbatim:
  "performSubstitutions e ''{{#PQS:flag}}yes{{/PQS:flag}}{{^PQS:flag}}no{{/PQS:flag}}'' vals w
     = (''{{#PQS:flag}}yes{{/PQS:flag}}{{^PQS:flag}}no{{/PQS:flag}}'', w)"
  by code_simp

text \<open>
  Claim C9. \<^verbatim>\<open>CAMEL\<close> drops the separator runs and upper-cases the character after each;
  it lower-cases nothing, so a leading upper-case letter stays. The two examples of the
  claim, which start in lower case, come out as the claim says.
\<close>

theorem camel_keeps_leading_upper_case:
  "transformText ''My Project'' ''CAMEL'' = ''MyProject''
   \<and> transformText ''my project name'' ''CAMEL'' = ''myProjectName''
   \<and> transformText ''my-project'' ''PASCAL'' = ''MyProject''"
  by code_simp

section \<open>index.js: questions are asked whatever their condition\<close>

text \<open>
  Claim C2. \<^verbatim>\<open>askQuestions\<close> never reads the condition of a question. With the first
  answer \<^verbatim>\<open>false\<close>, the condition of the second question is false on the answers so
  far, and yet the second question is prompted and its answer is in the result.
\<close>

theorem askQuestions_ignores_condition:
  "(case questions twoQuestions of
      Some [q1, q2] \<Rightarrow> (case qcondition q2 of Some c \<Rightarrow> \<not> c [''first'' \<mapsto> VBool False] | None \<Rightarrow> False)
    | _ \<Rightarrow> False)
   \<and> (case fst (askQuestions literalEnv twoQuestions Map.empty emptyWorld) of
        Inr answers \<Rightarrow> answers ''first'' = Some (VBool False) \<and> answers ''second'' = Some (VStr ''x'')
      | Inl err \<Rightarrow> False)
   \<and> trace (snd (askQuestions literalEnv twoQuestions Map.empty emptyWorld))
       = [Prompted ''first'', Prompted ''second'']"
  by code_simp

section \<open>index.js: steps and dry runs\<close>































text \<open>
  Claim C1. A command step and a copy step with a false condition do nothing
  (\<open>command_step_skipped\<close>, \<open>copy_step_skipped\<close> above), but \<^verbatim>\<open>processReplaceStep\<close> never
  reads the condition: the replace step of this template has a condition that is false,
  and the run reads and rewrites the file all the same.
\<close>

theorem replace_step_ignores_condition:
  "(case steps guardedTemplate of
      Some [ReplaceStep common patterns] \<Rightarrow> conditionFails common Map.empty
    | _ \<Rightarrow> False)
   \<and> trace (snd (createProject literalEnv [(''demo'', guardedTemplate)] ''demo'' (toOut False) templateWorld))
     = [Print ''Creating project from template: demo'',
        Print ''Output directory: /work/out'',
        EnsureDir ''/work/out'',
        Print (CHR 0x0A # ''Copying template files...''),
        EnsureDir ''/work/out'',
        CopyFile ''/tpl/a.txt'' ''/work/out/a.txt'',
        Print (CHR 0x0A # ''Processing template steps...''),
        ReadFile ''/work/out/a.txt'',
        WriteFile ''/work/out/a.txt'' ''hello world'',
        Print (CHR 0x0A # ''Project created successfully!'')]
   \<and> map_of (files (snd (createProject literalEnv [(''demo'', guardedTemplate)] ''demo'' (toOut False)
                          templateWorld))) ''/work/out/a.txt''
     = Some ''hello world''"
  by code_simp

section \<open>git-cloner.js: reading the cache\<close>

lemma pathExists_ensureDir: "pathExists p w \<Longrightarrow> pathExists p (ensureDir q w)"
  by (auto simp: pathExists_def isFile_def isDirectory_def ensureDir_def emit_def)

lemma pathExists_emit: "pathExists p (emit ev w) = pathExists p w"
  by (simp add: pathExists_def isFile_def isDirectory_def emit_def)

lemma cloneOrGetCached_hit:
  assumes valid: "validateGitUrl gitUrl"
    and git: "gitInstalled e"
    and idx: "cacheIndex w = IndexFile index"
    and entry: "map_of index (generateCacheKey (md5hex e) gitUrl) = Some entry"
    and dir: "pathExists (getCachePath (md5hex e) (homedir e) gitUrl) w"
    and noforce: "\<not> forceClone opts"
  shows "cloneOrGetCached e gitUrl opts w
           = (Inr (getCachePath (md5hex e) (homedir e) gitUrl),
              (if \<not> quiet opts
               then emit (Print (''Using cached template from '' @ full (parseGitUrl gitUrl)))
               else id)
                (ensureDir (getMainCachePath (homedir e)) (emit (Exec ''git --version'' (cwd e)) w)))"
proof -
  define w1 where "w1 = emit (Exec ''git --version'' (cwd e)) w"
  define w2 where "w2 = ensureDir (getMainCachePath (homedir e)) w1"
  have i1: "cacheIndex w2 = IndexFile index"
    using idx by (simp add: w2_def w1_def ensureDir_def emit_def)
  then have init: "initializeCache e w1 = w2"
    by (simp add: initializeCache_def Let_def w2_def [symmetric])
  have d2: "pathExists (getCachePath (md5hex e) (homedir e) gitUrl) w2"
    unfolding w2_def w1_def using dir by (simp add: pathExists_ensureDir pathExists_emit)
  have info: "getCacheInfo e gitUrl w2 = (Some entry, w2)"
    using i1 entry d2 by (simp add: getCacheInfo_def loadCacheIndex_def Let_def)
  show ?thesis
    unfolding cloneOrGetCached_def isGitAvailable_def
    using valid git noforce
    by (simp add: Let_def w1_def [symmetric] init info w2_def [symmetric])
qed

text \<open>
  Claim C7, as amended. For a URL that passes \<^verbatim>\<open>validateGitUrl\<close>, with git installed, an
  entry for the URL in the cache index and its directory on disk, \<^verbatim>\<open>cloneOrGetCached\<close>
  without \<^verbatim>\<open>force\<close> returns the cache path; it never asks how old the entry
  is. All it does is ask git for its version, ensure the cache root and, unless quiet,
  print: no file changes, the index stays, nothing is removed and nothing is cloned.
  The result is the same at every time of the clock, hence whether the entry is stale
  or not.
\<close>

theorem cached_read_ignores_staleness:
  assumes "validateGitUrl gitUrl"
    and "gitInstalled e"
    and "cacheIndex w = IndexFile index"
    and "map_of index (generateCacheKey (md5hex e) gitUrl) = Some entry"
    and "pathExists (getCachePath (md5hex e) (homedir e) gitUrl) w"
    and "\<not> forceClone opts"
  shows "fst (cloneOrGetCached e gitUrl opts w) = Inr (getCachePath (md5hex e) (homedir e) gitUrl)
    \<and> files (snd (cloneOrGetCached e gitUrl opts w)) = files w
    \<and> cacheIndex (snd (cloneOrGetCached e gitUrl opts w)) = cacheIndex w
    \<and> set (dirs w) \<subseteq> set (dirs (snd (cloneOrGetCached e gitUrl opts w)))
    \<and> trace (snd (cloneOrGetCached e gitUrl opts w))
        = trace w @ [Exec ''git --version'' (cwd e), EnsureDir (getMainCachePath (homedir e))]
          @ (if quiet opts then []
             else [Print (''Using cached template from '' @ full (parseGitUrl gitUrl))])
    \<and> (\<forall>t. cloneOrGetCached (e\<lparr>nowMs := t\<rparr>) gitUrl opts w = cloneOrGetCached e gitUrl opts w)"
proof -
  have "cloneOrGetCached (e\<lparr>nowMs := t\<rparr>) gitUrl opts w = cloneOrGetCached e gitUrl opts w" for t
    using cloneOrGetCached_hit [of gitUrl "e\<lparr>nowMs := t\<rparr>" w index entry opts]
      cloneOrGetCached_hit [OF assms] assms
    by simp
  then show ?thesis
    unfolding cloneOrGetCached_hit [OF assms]
    by (auto simp: ensureDir_def emit_def)
qed

theorem cached_read_ignores_staleness_witness:
  "validateGitUrl ''git@github.com:user/repo.git''
   \<and> gitInstalled literalEnv
   \<and> \<not> forceClone ordinaryRead
   \<and> fst (isCacheStale literalEnv ''git@github.com:user/repo.git'' 7 cachedWorld) = True
   \<and> fst (cloneOrGetCached literalEnv ''git@github.com:user/repo.git'' ordinaryRead cachedWorld)
       = Inr ''/home/u/.pqs/cache/githubcom-user-repo-01234567''
   \<and> trace (snd (cloneOrGetCached literalEnv ''git@github.com:user/repo.git'' ordinaryRead cachedWorld))
       = [Exec ''git --version'' ''/work'', EnsureDir ''/home/u/.pqs/cache'']"
proof -
  have h: "validateGitUrl ''git@github.com:user/repo.git''"
    "gitInstalled literalEnv"
    "cacheIndex cachedWorld = IndexFile
       [(''githubcom-user-repo-01234567'',
         \<lparr> url = ''git@github.com:user/repo.git'', branch = None, lastUpdated = 0,
           ehost = ''github.com'', eowner = ''user'', ename = ''repo'', clonedAt = Some 0 \<rparr>)]"
    "map_of [(''githubcom-user-repo-01234567'',
         \<lparr> url = ''git@github.com:user/repo.git'', branch = None, lastUpdated = 0,
           ehost = ''github.com'', eowner = ''user'', ename = ''repo'', clonedAt = Some 0 \<rparr>)]
       (generateCacheKey (md5hex literalEnv) ''git@github.com:user/repo.git'')
     = Some \<lparr> url = ''git@github.com:user/repo.git'', branch = None, lastUpdated = 0,
           ehost = ''github.com'', eowner = ''user'', ename = ''repo'', clonedAt = Some 0 \<rparr>"
    "pathExists (getCachePath (md5hex literalEnv) (homedir literalEnv) ''git@github.com:user/repo.git'')
       cachedWorld"
    "\<not> forceClone ordinaryRead"
    by code_simp+
  have s: "fst (isCacheStale literalEnv ''git@github.com:user/repo.git'' 7 cachedWorld) = True"
    by code_simp
  have p: "getCachePath (md5hex literalEnv) (homedir literalEnv) ''git@github.com:user/repo.git''
             = ''/home/u/.pqs/cache/githubcom-user-repo-01234567''"
    "getMainCachePath (homedir literalEnv) = ''/home/u/.pqs/cache''"
    "cwd literalEnv = ''/work''" "quiet ordinaryRead" "trace cachedWorld = []"
    by code_simp+
  show ?thesis
    using h(1,2,6) s cached_read_ignores_staleness [OF h] by (simp add: p)
qed

text \<open>
  Claim C7 as stated fails where one of the two guards at the start of
  \<^verbatim>\<open>cloneOrGetCached\<close> raises: for a remote URL that does not pass \<^verbatim>\<open>validateGitUrl\<close>, as
  no HTTPS URL does, and for a valid URL when git is not installed. With the entry and
  its directory present, no path is returned.
\<close>

theorem cached_read_raises_before_cache:
  "isGitUrl ''https://github.com/user/repo.git''
   \<and> fst (getCacheInfo literalEnv ''https://github.com/user/repo.git'' cachedWorld) \<noteq> None
   \<and> cloneOrGetCached literalEnv ''https://github.com/user/repo.git'' ordinaryRead cachedWorld
       = (Inl (InvalidGitUrl ''https://github.com/user/repo.git''), cachedWorld)
   \<and> validateGitUrl ''git@github.com:user/repo.git''
   \<and> fst (getCacheInfo (literalEnv\<lparr>gitInstalled := False\<rparr>) ''git@github.com:user/repo.git''
             cachedWorld) \<noteq> None
   \<and> fst (cloneOrGetCached (literalEnv\<lparr>gitInstalled := False\<rparr>) ''git@github.com:user/repo.git''
             ordinaryRead cachedWorld)
       = Inl GitUnavailable"
  by code_simp

end
